theory Spec2Isabelle
  imports Complex_Main
begin

section \<open>JavaScript values, objects and errors\<close>

text \<open>
  The library inspects schema descriptors dynamically (\<^verbatim>\<open>schema as any\<close>), so descriptors are
  modelled as untyped JavaScript values over an explicit store of objects. A value is a
  primitive or a reference to an object; an object is a finite map from property names to
  values (its own data properties). References can form cycles, exactly as object graphs in
  JavaScript can. \<open>JBuiltin name\<close> is the member \<open>name\<close> that every plain object inherits from
  \<^verbatim>\<open>Object.prototype\<close> (the function \<^verbatim>\<open>Object\<close> for \<^verbatim>\<open>constructor\<close>, the method for \<^verbatim>\<open>toString\<close>,
  the prototype object for \<^verbatim>\<open>__proto__\<close>, ...): an object of the runtime, truthy, not a string,
  with none of the properties and methods the library uses.

  Numbers: a finite number is kept as the exact rational it denotes; the rounding of a
  literal to the nearest binary64 value is not modelled, only the overflow to an infinity.
  Strings are sequences of code units below 256.
\<close>

type_synonym addr = nat

datatype jsnum = Num rat | NaN | PosInfinity | NegInfinity

datatype jsval =
    Undefined
  | Null
  | JBool bool
  | JNum jsnum
  | JStr string
  | JRef addr
  | JBuiltin string

type_synonym jsobject = "string \<rightharpoonup> jsval"

type_synonym heap = "addr \<Rightarrow> jsobject"

datatype issue_code = invalid_type | too_small

type_synonym issue = "string list \<times> issue_code"

datatype js_error = TypeError | ZodError "issue list"

text \<open>A computation either does not return (\<open>None\<close>), throws (\<open>Some (Inl e)\<close>) or returns
  a value (\<open>Some (Inr v)\<close>).\<close>

type_synonym 'a js = "(js_error + 'a) option"

fun on_ok :: "js_error + 'a \<Rightarrow> ('a \<Rightarrow> 'b js) \<Rightarrow> 'b js" where
  "on_ok (Inl e) k = Some (Inl e)"
| "on_ok (Inr x) k = k x"

fun bind_js :: "'a js \<Rightarrow> ('a \<Rightarrow> 'b js) \<Rightarrow> 'b js" where
  "bind_js None k = None"
| "bind_js (Some r) k = on_ok r k"

text \<open>\<^verbatim>\<open>!v\<close> is \<open>\<not> truthy v\<close>.\<close>

fun truthy :: "jsval \<Rightarrow> bool" where
  "truthy Undefined = False"
| "truthy Null = False"
| "truthy (JBool b) = b"
| "truthy (JNum n) = (n \<noteq> NaN \<and> n \<noteq> Num 0)"
| "truthy (JStr s) = (s \<noteq> [])"
| "truthy (JRef a) = True"
| "truthy (JBuiltin n) = True"

text \<open>
  The property read \<^verbatim>\<open>v.p\<close>. Reading a property of \<^verbatim>\<open>undefined\<close> or \<^verbatim>\<open>null\<close> throws a
  TypeError; a missing property reads as \<^verbatim>\<open>undefined\<close>. None of the property names the
  library reads (\<^verbatim>\<open>_def\<close>, \<^verbatim>\<open>typeName\<close>, \<^verbatim>\<open>type\<close>, \<^verbatim>\<open>innerType\<close>, \<^verbatim>\<open>schema\<close>, \<^verbatim>\<open>out\<close>) exists on the
  prototypes of booleans, numbers, strings, functions or plain objects, so those reads give
  \<^verbatim>\<open>undefined\<close> on a primitive or an inherited member and the own property on an object.
\<close>

fun get_prop :: "heap \<Rightarrow> jsval \<Rightarrow> string \<Rightarrow> js_error + jsval" where
  "get_prop h Undefined p = Inl TypeError"
| "get_prop h Null p = Inl TypeError"
| "get_prop h (JRef a) p = Inr (case h a p of None \<Rightarrow> Undefined | Some v \<Rightarrow> v)"
| "get_prop h v p = Inr Undefined"

section \<open>Schema introspection\<close>

lemma on_ok_mono [partial_function_mono]:
  assumes "\<And>y. mono_option (\<lambda>f. C y f)"
  shows "mono_option (\<lambda>f. on_ok r (\<lambda>y. C y f))"
  using assms by (cases r) (simp_all add: option.const_mono)

text \<open>\<^verbatim>\<open>unwrapSchema\<close> (config.ts, lines 4-35). The recursion follows object references, so it
  need not end on a cyclic descriptor (where JavaScript exhausts its call stack): having no
  result is the value \<open>None\<close>.\<close>

partial_function (option) unwrapSchema :: "heap \<Rightarrow> jsval \<Rightarrow> jsval js" where
  "unwrapSchema h schema =
    (if \<not> truthy schema then Some (Inr schema)
     else on_ok (get_prop h schema ''_def'') (\<lambda>d0.
     if \<not> truthy d0 then Some (Inr schema)
     else on_ok (get_prop h schema ''_def'') (\<lambda>def.
     on_ok (get_prop h def ''typeName'') (\<lambda>tn.
     on_ok (if truthy tn then Inr tn else get_prop h def ''type'') (\<lambda>typeName.
     if typeName = JStr ''ZodOptional'' \<or> typeName = JStr ''ZodNullable''
        \<or> typeName = JStr ''optional'' \<or> typeName = JStr ''nullable'' then
       on_ok (get_prop h def ''innerType'') (\<lambda>innerType.
         if truthy innerType then unwrapSchema h innerType else Some (Inr schema))
     else if typeName = JStr ''ZodDefault'' \<or> typeName = JStr ''default''
        \<or> typeName = JStr ''ZodCatch'' \<or> typeName = JStr ''catch''
        \<or> typeName = JStr ''ZodReadonly'' \<or> typeName = JStr ''readonly'' then
       on_ok (get_prop h def ''innerType'') (\<lambda>innerType.
         if truthy innerType then unwrapSchema h innerType else Some (Inr schema))
     else if typeName = JStr ''ZodEffects'' \<or> typeName = JStr ''effects'' then
       on_ok (get_prop h def ''schema'') (\<lambda>innerSchema.
         if truthy innerSchema then unwrapSchema h innerSchema else Some (Inr schema))
     else if typeName = JStr ''ZodPipeline'' \<or> typeName = JStr ''pipeline'' then
       on_ok (get_prop h def ''out'') (\<lambda>out.
         if truthy out then unwrapSchema h out else Some (Inr schema))
     else Some (Inr schema))))))"

declare unwrapSchema.simps [code]

text \<open>
  One layer of a descriptor, read off the branches of \<^verbatim>\<open>unwrapSchema\<close>: \<open>wrapper_inner h s\<close>
  is the node the function recurses into at \<open>s\<close>, and \<open>None\<close> where it returns \<open>s\<close> itself
  (\<open>unwrapSchema_stop\<close> and \<open>unwrapSchema_step\<close> below prove that this is what the function
  does). Property reads of a non-object give \<^verbatim>\<open>undefined\<close> here.
\<close>

definition read_prop :: "heap \<Rightarrow> jsval \<Rightarrow> string \<Rightarrow> jsval" where
  "read_prop h v p = (case get_prop h v p of Inl e \<Rightarrow> Undefined | Inr x \<Rightarrow> x)"

definition type_tag :: "heap \<Rightarrow> jsval \<Rightarrow> jsval" where
  "type_tag h def = (if truthy (read_prop h def ''typeName'') then read_prop h def ''typeName''
                     else read_prop h def ''type'')"

definition inner_slot :: "jsval \<Rightarrow> string option" where
  "inner_slot typeName =
    (if typeName \<in> JStr ` {''ZodOptional'', ''ZodNullable'', ''optional'', ''nullable'',
          ''ZodDefault'', ''default'', ''ZodCatch'', ''catch'', ''ZodReadonly'', ''readonly''}
     then Some ''innerType''
     else if typeName \<in> JStr ` {''ZodEffects'', ''effects''} then Some ''schema''
     else if typeName \<in> JStr ` {''ZodPipeline'', ''pipeline''} then Some ''out''
     else None)"

definition wrapper_inner :: "heap \<Rightarrow> jsval \<Rightarrow> jsval option" where
  "wrapper_inner h s =
    (if \<not> truthy s \<or> \<not> truthy (read_prop h s ''_def'') then None
     else case inner_slot (type_tag h (read_prop h s ''_def'')) of
            None \<Rightarrow> None
          | Some slot \<Rightarrow>
              (if truthy (read_prop h (read_prop h s ''_def'') slot)
               then Some (read_prop h (read_prop h s ''_def'') slot) else None))"

text \<open>\<open>wrapper_depth h s n\<close>: the descriptor \<open>s\<close> has exactly \<open>n\<close> wrapper layers above a node
  that is not a wrapper. A descriptor on a cycle of wrappers has no depth.\<close>

inductive wrapper_depth :: "heap \<Rightarrow> jsval \<Rightarrow> nat \<Rightarrow> bool" where
  innermost: "wrapper_inner h s = None \<Longrightarrow> wrapper_depth h s 0"
| layer: "wrapper_inner h s = Some y \<Longrightarrow> wrapper_depth h y n \<Longrightarrow> wrapper_depth h s (Suc n)"

code_pred wrapper_depth .

datatype kind = number | boolean | string | other

text \<open>\<^verbatim>\<open>getPrimitiveKind\<close> (config.ts, lines 37-49).\<close>

definition getPrimitiveKind :: "heap \<Rightarrow> jsval \<Rightarrow> kind js" where
  "getPrimitiveKind h schema =
    bind_js (unwrapSchema h schema) (\<lambda>unwrapped.
    if \<not> truthy unwrapped then Some (Inr other)
    else on_ok (get_prop h unwrapped ''_def'') (\<lambda>d0.
    if \<not> truthy d0 then Some (Inr other)
    else on_ok (get_prop h unwrapped ''_def'') (\<lambda>def.
    on_ok (get_prop h def ''typeName'') (\<lambda>tn.
    on_ok (if truthy tn then Inr tn else get_prop h def ''type'') (\<lambda>typeName.
    if typeName = JStr ''ZodNumber'' \<or> typeName = JStr ''number'' then Some (Inr number)
    else if typeName = JStr ''ZodBoolean'' \<or> typeName = JStr ''boolean'' then Some (Inr boolean)
    else if typeName = JStr ''ZodString'' \<or> typeName = JStr ''string'' then Some (Inr string)
    else Some (Inr other))))))"

text \<open>The classification of a node that is already unwrapped, read off the second half of
  \<^verbatim>\<open>getPrimitiveKind\<close> (\<open>getPrimitiveKind_eq\<close> below).\<close>

definition node_kind :: "heap \<Rightarrow> jsval \<Rightarrow> kind" where
  "node_kind h u =
    (if \<not> truthy u \<or> \<not> truthy (read_prop h u ''_def'') then other
     else if type_tag h (read_prop h u ''_def'') \<in> {JStr ''ZodNumber'', JStr ''number''} then number
     else if type_tag h (read_prop h u ''_def'') \<in> {JStr ''ZodBoolean'', JStr ''boolean''} then boolean
     else if type_tag h (read_prop h u ''_def'') \<in> {JStr ''ZodString'', JStr ''string''} then string
     else other)"

section \<open>Strings and numbers of the JavaScript runtime\<close>

text \<open>
  \<^verbatim>\<open>String.prototype.toLowerCase\<close> and \<^verbatim>\<open>String.prototype.trim\<close> on code units below 256:
  the upper-case letters are A-Z and the code units 192-222 except 215; white space and line
  terminators are the code units 9-13, 32 and 160.
\<close>

definition to_lower_char :: "char \<Rightarrow> char" where
  "to_lower_char c =
    (let n = (of_char c :: nat)
     in if (65 \<le> n \<and> n \<le> 90) \<or> (192 \<le> n \<and> n \<le> 222 \<and> n \<noteq> 215) then char_of (n + 32) else c)"

definition toLowerCase :: "string \<Rightarrow> string" where
  "toLowerCase s = map to_lower_char s"

definition is_js_space :: "char \<Rightarrow> bool" where
  "is_js_space c = ((of_char c :: nat) \<in> {9, 10, 11, 12, 13, 32, 160})"

definition trim :: "string \<Rightarrow> string" where
  "trim s = rev (dropWhile is_js_space (rev (dropWhile is_js_space s)))"

text \<open>The method call \<^verbatim>\<open>value.toLowerCase()\<close>: only a string has the method; on any other
  value the call throws a TypeError.\<close>

fun call_toLowerCase :: "jsval \<Rightarrow> js_error + string" where
  "call_toLowerCase (JStr s) = Inr (toLowerCase s)"
| "call_toLowerCase v = Inl TypeError"

text \<open>
  Modelled from the spec: the numeric parse (``a permissive numeric parse of the string,
  accepting integer and decimal forms, consistent with standard numeric literal parsing'')
  is \<^verbatim>\<open>z.coerce.number().safeParse\<close>, which lives in the zod library and the JavaScript
  runtime, not under src/. It applies \<^verbatim>\<open>Number(value)\<close> and then zod's number type check.
  \<open>string_to_number\<close> is ECMAScript's StringToNumber: surrounding white space is dropped,
  the empty string is 0, then a binary, octal or hexadecimal integer literal or a signed
  decimal literal (with optional fraction and exponent, or \<^verbatim>\<open>Infinity\<close>); anything else is NaN.
\<close>

definition digit_of :: "nat \<Rightarrow> char \<Rightarrow> nat option" where
  "digit_of b c =
    (let n = (of_char c :: nat);
         v = (if 48 \<le> n \<and> n \<le> 57 then Some (n - 48)
              else if 97 \<le> n \<and> n \<le> 102 then Some (n - 87)
              else if 65 \<le> n \<and> n \<le> 70 then Some (n - 55)
              else None)
     in case v of None \<Rightarrow> None | Some d \<Rightarrow> if d < b then Some d else None)"

fun digits_value :: "nat \<Rightarrow> nat \<Rightarrow> string \<Rightarrow> nat option" where
  "digits_value b acc [] = Some acc"
| "digits_value b acc (c # cs) =
    (case digit_of b c of None \<Rightarrow> None | Some d \<Rightarrow> digits_value b (acc * b + d) cs)"

definition parse_digits :: "nat \<Rightarrow> string \<Rightarrow> nat option" where
  "parse_digits b s = (if s = [] then None else digits_value b 0 s)"

definition is_digit :: "char \<Rightarrow> bool" where
  "is_digit c = (digit_of 10 c \<noteq> None)"

definition exponent_part :: "string \<Rightarrow> int option" where
  "exponent_part s =
    (if s = [] then Some 0
     else if hd s = CHR ''e'' \<or> hd s = CHR ''E'' then
       (if tl s \<noteq> [] \<and> hd (tl s) = CHR ''+'' then map_option int (parse_digits 10 (tl (tl s)))
        else if tl s \<noteq> [] \<and> hd (tl s) = CHR ''-'' then
          map_option (\<lambda>n. - int n) (parse_digits 10 (tl (tl s)))
        else map_option int (parse_digits 10 (tl s)))
     else None)"

text \<open>A value of magnitude at least \<open>2^1024 - 2^970\<close> rounds to an infinity. Below that the
  exact value stands for the binary64 number nearest to it (so a value too small for
  binary64 is kept, where JavaScript has 0).\<close>

definition round_range :: "rat \<Rightarrow> jsnum" where
  "round_range r =
    (if 2 ^ 1024 - 2 ^ 970 \<le> \<bar>r\<bar> then (if 0 < r then PosInfinity else NegInfinity) else Num r)"

definition scale10 :: "nat \<Rightarrow> int \<Rightarrow> rat" where
  "scale10 m k = (if 0 \<le> k then of_nat m * 10 ^ nat k else of_nat m / 10 ^ nat (- k))"

definition unsigned_decimal :: "string \<Rightarrow> jsnum" where
  "unsigned_decimal s =
    (if s = ''Infinity'' then PosInfinity
     else
       let ip = takeWhile is_digit s;
           r1 = dropWhile is_digit s;
           has_dot = (r1 \<noteq> [] \<and> hd r1 = CHR ''.'');
           fp = (if has_dot then takeWhile is_digit (tl r1) else []);
           r2 = (if has_dot then dropWhile is_digit (tl r1) else r1)
       in if ip = [] \<and> fp = [] then NaN
          else case (digits_value 10 0 (ip @ fp), exponent_part r2) of
                 (Some m, Some e) \<Rightarrow> round_range (scale10 m (e - int (length fp)))
               | _ \<Rightarrow> NaN)"

fun negate :: "jsnum \<Rightarrow> jsnum" where
  "negate (Num r) = Num (- r)"
| "negate PosInfinity = NegInfinity"
| "negate NegInfinity = PosInfinity"
| "negate NaN = NaN"

definition str_decimal :: "string \<Rightarrow> jsnum" where
  "str_decimal s =
    (if s \<noteq> [] \<and> hd s = CHR ''+'' then unsigned_decimal (tl s)
     else if s \<noteq> [] \<and> hd s = CHR ''-'' then negate (unsigned_decimal (tl s))
     else unsigned_decimal s)"

definition non_decimal :: "string \<Rightarrow> nat option" where
  "non_decimal s =
    (if length s < 2 \<or> hd s \<noteq> CHR ''0'' then None
     else if hd (tl s) = CHR ''x'' \<or> hd (tl s) = CHR ''X'' then parse_digits 16 (tl (tl s))
     else if hd (tl s) = CHR ''o'' \<or> hd (tl s) = CHR ''O'' then parse_digits 8 (tl (tl s))
     else if hd (tl s) = CHR ''b'' \<or> hd (tl s) = CHR ''B'' then parse_digits 2 (tl (tl s))
     else None)"

definition string_to_number :: "string \<Rightarrow> jsnum" where
  "string_to_number s =
    (let t = trim s
     in if t = [] then Num 0
        else case non_decimal t of
               Some n \<Rightarrow> round_range (of_nat n)
             | None \<Rightarrow> str_decimal t)"

text \<open>\<^verbatim>\<open>Number(v)\<close> of the JavaScript runtime. A reference stands for a plain object, which
  converts to NaN, as a function does.\<close>

fun to_number :: "jsval \<Rightarrow> jsnum" where
  "to_number Undefined = NaN"
| "to_number Null = Num 0"
| "to_number (JBool b) = Num (if b then 1 else 0)"
| "to_number (JNum n) = n"
| "to_number (JStr s) = string_to_number s"
| "to_number (JRef a) = NaN"
| "to_number (JBuiltin n) = NaN"

section \<open>The external validator\<close>

text \<open>
  Modelled from the spec: the validator (``type checks, default substitution, and constraint
  enforcement'', raising ``a structured error carrying one or more (field-path, message)
  entries'') is the zod library, not under src/. The model covers the field types of the
  repository's examples: numbers with the checks \<^verbatim>\<open>int\<close> and \<^verbatim>\<open>positive\<close>, strings with
  \<^verbatim>\<open>min\<close>, booleans, and \<^verbatim>\<open>default\<close>. The source reads both the zod 3 tag (\<^verbatim>\<open>typeName\<close>) and the
  zod 4 tag (\<^verbatim>\<open>type\<close>), so the library version is a parameter: zod 3 accepts the infinities as
  numbers and validates a default against the inner type, zod 4 rejects the infinities and
  returns a default as it is.
\<close>

datatype zod_version = Zod3 | Zod4

datatype num_check = int_check | positive_check

datatype ztype =
    ZodNumber "num_check list"
  | ZodString nat
  | ZodBoolean
  | ZodDefault ztype jsval

fun check_number :: "num_check \<Rightarrow> jsnum \<Rightarrow> issue_code option" where
  "check_number int_check (Num r) = (if r = of_int \<lfloor>r\<rfloor> then None else Some invalid_type)"
| "check_number int_check n = Some invalid_type"
| "check_number positive_check (Num r) = (if 0 < r then None else Some too_small)"
| "check_number positive_check PosInfinity = None"
| "check_number positive_check n = Some too_small"

text \<open>
  Modelled from the spec: the parse of one field by the zod library, which is not under
  src/. It returns the value or the codes of the issues found. \<open>ZodString m\<close> is
  \<^verbatim>\<open>z.string().min(m)\<close>; \<^verbatim>\<open>z.string()\<close> is \<open>ZodString 0\<close>.
\<close>

fun z_parse :: "zod_version \<Rightarrow> ztype \<Rightarrow> jsval \<Rightarrow> issue_code list + jsval" where
  "z_parse zv (ZodNumber cs) v =
    (case v of
       JNum n \<Rightarrow>
         if n = NaN \<or> (zv = Zod4 \<and> (n = PosInfinity \<or> n = NegInfinity)) then Inl [invalid_type]
         else if List.map_filter (\<lambda>c. check_number c n) cs = [] then Inr v
         else Inl (List.map_filter (\<lambda>c. check_number c n) cs)
     | _ \<Rightarrow> Inl [invalid_type])"
| "z_parse zv (ZodString m) v =
    (case v of
       JStr s \<Rightarrow> if m \<le> length s then Inr v else Inl [too_small]
     | _ \<Rightarrow> Inl [invalid_type])"
| "z_parse zv ZodBoolean v =
    (case v of JBool b \<Rightarrow> Inr v | _ \<Rightarrow> Inl [invalid_type])"
| "z_parse zv (ZodDefault t d) v =
    (if v = Undefined then (if zv = Zod3 then z_parse zv t d else Inr d)
     else z_parse zv t v)"

text \<open>
  Modelled from the spec: \<^verbatim>\<open>z.coerce.number().safeParse(value)\<close> of the zod library, which is
  not under src/: \<^verbatim>\<open>Number(value)\<close>, then the number type check. \<open>Some n\<close> is
  \<^verbatim>\<open>{success: true, data: n}\<close>, \<open>None\<close> is \<^verbatim>\<open>{success: false}\<close>.
\<close>

definition coerce_number_safeParse :: "zod_version \<Rightarrow> jsval \<Rightarrow> jsnum option" where
  "coerce_number_safeParse zv v =
    (case z_parse zv (ZodNumber []) (JNum (to_number v)) of
       Inr (JNum n) \<Rightarrow> Some n
     | _ \<Rightarrow> None)"

text \<open>
  Modelled from the spec: the \<^verbatim>\<open>parse\<close> method of a zod object schema, which is not under
  src/. Every declared field is parsed at the candidate's value for it (\<^verbatim>\<open>undefined\<close> when
  absent); the issues of all fields are reported together, each under the path of its
  field; on success a field is set when its value is defined or the candidate had the key.
\<close>

definition field_value :: "(string \<rightharpoonup> jsval) \<Rightarrow> string \<Rightarrow> jsval" where
  "field_value obj k = (case obj k of None \<Rightarrow> Undefined | Some v \<Rightarrow> v)"

definition field_issues :: "zod_version \<Rightarrow> (string \<rightharpoonup> jsval) \<Rightarrow> string \<times> ztype \<Rightarrow> issue list" where
  "field_issues zv obj f =
    (case z_parse zv (snd f) (field_value obj (fst f)) of
       Inl cs \<Rightarrow> map (\<lambda>c. ([fst f], c)) cs
     | Inr v \<Rightarrow> [])"

definition field_result :: "zod_version \<Rightarrow> (string \<rightharpoonup> jsval) \<Rightarrow> string \<times> ztype \<Rightarrow> (string \<times> jsval) option" where
  "field_result zv obj f =
    (case z_parse zv (snd f) (field_value obj (fst f)) of
       Inl cs \<Rightarrow> None
     | Inr v \<Rightarrow> if v = Undefined \<and> obj (fst f) = None then None else Some (fst f, v))"

definition z_object_parse ::
    "zod_version \<Rightarrow> (string \<times> ztype) list \<Rightarrow> (string \<rightharpoonup> jsval) \<Rightarrow> js_error + (string \<rightharpoonup> jsval)" where
  "z_object_parse zv fields obj =
    (if concat (map (field_issues zv obj) fields) \<noteq> []
     then Inl (ZodError (concat (map (field_issues zv obj) fields)))
     else Inr (map_of (List.map_filter (field_result zv obj) fields)))"

section \<open>Coercion and the build operation\<close>

text \<open>\<^verbatim>\<open>coerceValue\<close> (config.ts, lines 51-71). The parameter \<^verbatim>\<open>value\<close> is declared
  \<^verbatim>\<open>string | undefined\<close>; the model takes any value, so that what the body does on a value of
  another type can be stated.\<close>

definition coerceValue :: "zod_version \<Rightarrow> heap \<Rightarrow> jsval \<Rightarrow> jsval \<Rightarrow> jsval js" where
  "coerceValue zv h schema v =
    (if v = Undefined then Some (Inr Undefined)
     else bind_js (getPrimitiveKind h schema) (\<lambda>kind.
       if kind = number then
         (case coerce_number_safeParse zv v of
            Some n \<Rightarrow> Some (Inr (JNum n))
          | None \<Rightarrow> Some (Inr v))
       else if kind = boolean then
         on_ok (call_toLowerCase v) (\<lambda>l.
           let lower = trim l
           in if lower = ''true'' \<or> lower = ''1'' \<or> lower = ''yes'' then Some (Inr (JBool True))
              else if lower = ''false'' \<or> lower = ''0'' \<or> lower = ''no'' \<or> lower = []
                then Some (Inr (JBool False))
              else Some (Inr v))
       else Some (Inr v)))"

text \<open>
  The object schema handed to \<^verbatim>\<open>createConfig\<close>: its \<^verbatim>\<open>shape\<close> (field names in the order of
  \<^verbatim>\<open>Object.keys\<close>, each with its descriptor) and its \<^verbatim>\<open>parse\<close> method. The mapping is
  \<^verbatim>\<open>Partial<Record<keyof T, string>>\<close> and the environment \<^verbatim>\<open>Record<string, string | undefined>\<close>:
  both are given by their own entries, \<open>None\<close> where the object has no own entry.

  \<^verbatim>\<open>env[envVarName]\<close> is a property read of a plain object (an object literal, or
  \<^verbatim>\<open>process.env\<close>): where the environment has no own entry of that name, the read gives the
  member inherited from \<^verbatim>\<open>Object.prototype\<close> if the name is one of its members, and
  \<^verbatim>\<open>undefined\<close> otherwise. So the raw value is not always a string or \<^verbatim>\<open>undefined\<close>, whatever
  the declared type says.

  \<^verbatim>\<open>shape[key]\<close> is read at a key from \<^verbatim>\<open>Object.keys(shape)\<close>, an own property. \<^verbatim>\<open>metadata[key]\<close>
  is read at the own entries of the mapping: for a field that is named like a member of
  \<^verbatim>\<open>Object.prototype\<close> and has no own entry, the variable name would be the engine's text of
  a native function, which is not modelled; field names are taken not to be such names.
\<close>

record zod_object =
  shape :: "(string \<times> jsval) list"
  parse :: "(string \<rightharpoonup> jsval) \<Rightarrow> js_error + (string \<rightharpoonup> jsval)"

definition object_prototype_members :: "string list" where
  "object_prototype_members =
    [''constructor'', ''hasOwnProperty'', ''isPrototypeOf'', ''propertyIsEnumerable'',
     ''toLocaleString'', ''toString'', ''valueOf'', ''__proto__'', ''__defineGetter__'',
     ''__defineSetter__'', ''__lookupGetter__'', ''__lookupSetter__'']"

definition inherited_member :: "string \<Rightarrow> jsval" where
  "inherited_member name =
    (if name \<in> set object_prototype_members then JBuiltin name else Undefined)"

text \<open>\<^verbatim>\<open>env[envVarName]\<close>.\<close>

definition read_env :: "(string \<rightharpoonup> string) \<Rightarrow> string \<Rightarrow> jsval" where
  "read_env env name = (case env name of None \<Rightarrow> inherited_member name | Some s \<Rightarrow> JStr s)"

text \<open>\<^verbatim>\<open>metadata[key]\<close> as a value.\<close>

definition metadata_at :: "(string \<rightharpoonup> string) \<Rightarrow> string \<Rightarrow> jsval" where
  "metadata_at metadata key = (case metadata key of None \<Rightarrow> Undefined | Some s \<Rightarrow> JStr s)"

definition shape_at :: "(string \<times> jsval) list \<Rightarrow> string \<Rightarrow> jsval" where
  "shape_at sh k = (case map_of sh k of None \<Rightarrow> Undefined | Some f \<Rightarrow> f)"

text \<open>The loop of \<^verbatim>\<open>createConfig\<close> (lines 81-94) over the remaining keys, with the candidate
  object \<^verbatim>\<open>initial\<close> built so far.\<close>

fun build_initial ::
    "zod_version \<Rightarrow> heap \<Rightarrow> (string \<times> jsval) list \<Rightarrow> (string \<rightharpoonup> string) \<Rightarrow> (string \<rightharpoonup> string)
      \<Rightarrow> string list \<Rightarrow> (string \<rightharpoonup> jsval) \<Rightarrow> (string \<rightharpoonup> jsval) js" where
  "build_initial zv h sh metadata env [] initial = Some (Inr initial)"
| "build_initial zv h sh metadata env (key # keys) initial =
    (case metadata key of
       None \<Rightarrow> build_initial zv h sh metadata env keys initial
     | Some envVarName \<Rightarrow>
         if \<not> truthy (JStr envVarName) then build_initial zv h sh metadata env keys initial
         else if \<not> truthy (shape_at sh key) then build_initial zv h sh metadata env keys initial
         else bind_js (coerceValue zv h (shape_at sh key) (read_env env envVarName)) (\<lambda>coerced.
           if coerced \<noteq> Undefined
           then build_initial zv h sh metadata env keys (initial(key \<mapsto> coerced))
           else build_initial zv h sh metadata env keys initial))"

text \<open>\<^verbatim>\<open>createConfig\<close> (config.ts, lines 73-97).\<close>

definition createConfig ::
    "zod_version \<Rightarrow> heap \<Rightarrow> zod_object \<Rightarrow> (string \<rightharpoonup> string) \<Rightarrow> (string \<rightharpoonup> string)
      \<Rightarrow> (string \<rightharpoonup> jsval) js" where
  "createConfig zv h schema metadata env =
    bind_js (build_initial zv h (shape schema) metadata env (map fst (shape schema)) Map.empty)
      (\<lambda>initial. Some (parse schema initial))"

text \<open>A raw value as the declared type has it: a string, or absent.\<close>

definition string_or_absent :: "jsval \<Rightarrow> bool" where
  "string_or_absent v = (case v of Undefined \<Rightarrow> True | JStr s \<Rightarrow> True | _ \<Rightarrow> False)"

text \<open>\<open>own_names metadata env\<close>: every variable name the mapping uses is an own entry of the
  environment or is no member of \<^verbatim>\<open>Object.prototype\<close>, so that every raw value the loop reads
  is a string or absent.\<close>

definition own_names :: "(string \<rightharpoonup> string) \<Rightarrow> (string \<rightharpoonup> string) \<Rightarrow> bool" where
  "own_names metadata env =
    (\<forall>k name. metadata k = Some name \<longrightarrow> env name \<noteq> None \<or> name \<notin> set object_prototype_members)"

section \<open>Example descriptors\<close>

text \<open>
  Descriptors as zod builds them, reduced to the properties the library reads:
  \<^item> 0: \<^verbatim>\<open>z.number().default(..).optional()\<close> (zod 3 tags), the number itself at 4;
  \<^item> 6: an optional wrapper whose \<^verbatim>\<open>innerType\<close> is missing;
  \<^item> 8: \<^verbatim>\<open>z.boolean()\<close> (zod 4 tag);
  \<^item> 10: a transform wrapper whose \<^verbatim>\<open>schema\<close> is the wrapper itself, a cycle;
  \<^item> 12: \<^verbatim>\<open>z.string()\<close> (zod 3 tag).
\<close>

definition example_heap :: heap where
  "example_heap = (\<lambda>a. Map.empty)
    (0 := [''_def'' \<mapsto> JRef 1],
     1 := [''typeName'' \<mapsto> JStr ''ZodOptional'', ''innerType'' \<mapsto> JRef 2],
     2 := [''_def'' \<mapsto> JRef 3],
     3 := [''typeName'' \<mapsto> JStr ''ZodDefault'', ''innerType'' \<mapsto> JRef 4],
     4 := [''_def'' \<mapsto> JRef 5],
     5 := [''typeName'' \<mapsto> JStr ''ZodNumber''],
     6 := [''_def'' \<mapsto> JRef 7],
     7 := [''typeName'' \<mapsto> JStr ''ZodOptional''],
     8 := [''_def'' \<mapsto> JRef 9],
     9 := [''type'' \<mapsto> JStr ''boolean''],
     10 := [''_def'' \<mapsto> JRef 11],
     11 := [''typeName'' \<mapsto> JStr ''ZodEffects'', ''schema'' \<mapsto> JRef 10],
     12 := [''_def'' \<mapsto> JRef 13],
     13 := [''typeName'' \<mapsto> JStr ''ZodString''])"

text \<open>
  The schema of the repository's example (tests/example.ts and scenario A of the spec):
  \<^verbatim>\<open>port: z.number().int().positive()\<close> at 0, \<^verbatim>\<open>host: z.string().default('localhost')\<close> at 2,
  \<^verbatim>\<open>debug: z.boolean().default(false)\<close> at 6, with the type tags of the library version in use.
\<close>

definition type_entry :: "zod_version \<Rightarrow> string \<Rightarrow> string \<Rightarrow> jsobject" where
  "type_entry zv t3 t4 = (if zv = Zod3 then [''typeName'' \<mapsto> JStr t3] else [''type'' \<mapsto> JStr t4])"

definition scenario_heap :: "zod_version \<Rightarrow> heap" where
  "scenario_heap zv = (\<lambda>a. Map.empty)
    (0 := [''_def'' \<mapsto> JRef 1],
     1 := type_entry zv ''ZodNumber'' ''number'',
     2 := [''_def'' \<mapsto> JRef 3],
     3 := (type_entry zv ''ZodDefault'' ''default'')(''innerType'' \<mapsto> JRef 4),
     4 := [''_def'' \<mapsto> JRef 5],
     5 := type_entry zv ''ZodString'' ''string'',
     6 := [''_def'' \<mapsto> JRef 7],
     7 := (type_entry zv ''ZodDefault'' ''default'')(''innerType'' \<mapsto> JRef 8),
     8 := [''_def'' \<mapsto> JRef 9],
     9 := type_entry zv ''ZodBoolean'' ''boolean'')"

definition scenario_fields :: "(string \<times> ztype) list" where
  "scenario_fields =
    [(''port'', ZodNumber [int_check, positive_check]),
     (''host'', ZodDefault (ZodString 0) (JStr ''localhost'')),
     (''debug'', ZodDefault ZodBoolean (JBool False))]"

definition scenario_schema :: "zod_version \<Rightarrow> zod_object" where
  "scenario_schema zv =
    \<lparr>shape = [(''port'', JRef 0), (''host'', JRef 2), (''debug'', JRef 6)],
     parse = z_object_parse zv scenario_fields\<rparr>"

definition scenario_mapping :: "string \<rightharpoonup> string" where
  "scenario_mapping = [''port'' \<mapsto> ''APP_PORT'', ''host'' \<mapsto> ''APP_HOST'', ''debug'' \<mapsto> ''DEBUG'']"

definition scenario_env :: "string \<rightharpoonup> string" where
  "scenario_env = [''APP_PORT'' \<mapsto> ''3000'', ''APP_HOST'' \<mapsto> ''example.com'', ''DEBUG'' \<mapsto> ''true'']"

section \<open>Unwrapping: one layer at a time\<close>

lemma get_prop_truthy: "truthy v \<Longrightarrow> get_prop h v p = Inr (read_prop h v p)"
  by (cases v) (simp_all add: read_prop_def)

lemma unwrap_body_eq:
  fixes f :: "heap \<Rightarrow> jsval \<Rightarrow> jsval js"
  shows "(if \<not> truthy s then Some (Inr s)
     else on_ok (get_prop h s ''_def'') (\<lambda>d0.
     if \<not> truthy d0 then Some (Inr s)
     else on_ok (get_prop h s ''_def'') (\<lambda>def.
     on_ok (get_prop h def ''typeName'') (\<lambda>tn.
     on_ok (if truthy tn then Inr tn else get_prop h def ''type'') (\<lambda>typeName.
     if typeName = JStr ''ZodOptional'' \<or> typeName = JStr ''ZodNullable''
        \<or> typeName = JStr ''optional'' \<or> typeName = JStr ''nullable'' then
       on_ok (get_prop h def ''innerType'') (\<lambda>innerType.
         if truthy innerType then f h innerType else Some (Inr s))
     else if typeName = JStr ''ZodDefault'' \<or> typeName = JStr ''default''
        \<or> typeName = JStr ''ZodCatch'' \<or> typeName = JStr ''catch''
        \<or> typeName = JStr ''ZodReadonly'' \<or> typeName = JStr ''readonly'' then
       on_ok (get_prop h def ''innerType'') (\<lambda>innerType.
         if truthy innerType then f h innerType else Some (Inr s))
     else if typeName = JStr ''ZodEffects'' \<or> typeName = JStr ''effects'' then
       on_ok (get_prop h def ''schema'') (\<lambda>innerSchema.
         if truthy innerSchema then f h innerSchema else Some (Inr s))
     else if typeName = JStr ''ZodPipeline'' \<or> typeName = JStr ''pipeline'' then
       on_ok (get_prop h def ''out'') (\<lambda>out.
         if truthy out then f h out else Some (Inr s))
     else Some (Inr s)))))) =
    (case wrapper_inner h s of None \<Rightarrow> Some (Inr s) | Some y \<Rightarrow> f h y)"
proof (cases "truthy s \<and> truthy (read_prop h s ''_def'')")
  case False
  then show ?thesis
    by (auto simp: get_prop_truthy wrapper_inner_def)
next
  case True
  define d where "d = read_prop h s ''_def''"
  have ts: "truthy s" and td: "truthy d" using True by (simp_all add: d_def)
  have gs: "get_prop h s ''_def'' = Inr d" using ts by (simp add: get_prop_truthy d_def)
  have gd: "\<And>p. get_prop h d p = Inr (read_prop h d p)" using td by (simp add: get_prop_truthy)
  have tag: "(if truthy (read_prop h d ''typeName'') then Inr (read_prop h d ''typeName'')
              else Inr (read_prop h d ''type'')) = (Inr (type_tag h d) :: js_error + jsval)"
    by (simp add: type_tag_def)
  have w: "wrapper_inner h s = (case inner_slot (type_tag h d) of None \<Rightarrow> None
              | Some slot \<Rightarrow> if truthy (read_prop h d slot) then Some (read_prop h d slot) else None)"
    using ts td unfolding d_def by (simp add: wrapper_inner_def)
  show ?thesis
    apply (simp only: ts td gs gd on_ok.simps tag w simp_thms if_True if_False)
    apply (simp add: inner_slot_def)
    done
qed

lemma unwrapSchema_unfold:
  "unwrapSchema h s = (case wrapper_inner h s of None \<Rightarrow> Some (Inr s) | Some y \<Rightarrow> unwrapSchema h y)"
  by (subst unwrapSchema.simps) (rule unwrap_body_eq)

lemma unwrapSchema_stop: "wrapper_inner h s = None \<Longrightarrow> unwrapSchema h s = Some (Inr s)"
  by (subst unwrapSchema_unfold) simp

lemma unwrapSchema_step: "wrapper_inner h s = Some y \<Longrightarrow> unwrapSchema h s = unwrapSchema h y"
  by (subst unwrapSchema_unfold) simp

lemma unwrapSchema_depth:
  "wrapper_depth h s n \<Longrightarrow> \<exists>v. unwrapSchema h s = Some (Inr v) \<and> wrapper_inner h v = None"
  by (induction rule: wrapper_depth.induct) (auto simp: unwrapSchema_stop unwrapSchema_step)

lemma unwrapSchema_result:
  "unwrapSchema h s = Some r \<Longrightarrow> \<exists>v. r = Inr v \<and> wrapper_inner h v = None"
  apply (erule unwrapSchema.raw_induct [where P = "\<lambda>h s r. \<exists>v. r = Inr v \<and> wrapper_inner h v = None", rotated])
  subgoal premises prems for f h s r
    using prems(2) [unfolded unwrap_body_eq [where s = s and h = h and f = f]] prems(1)
    by (auto split: option.splits)
  done

lemma getPrimitiveKind_eq:
  "getPrimitiveKind h s = bind_js (unwrapSchema h s) (\<lambda>u. Some (Inr (node_kind h u)))"
proof -
  have "(if \<not> truthy u then Some (Inr other)
    else on_ok (get_prop h u ''_def'') (\<lambda>d0.
    if \<not> truthy d0 then Some (Inr other)
    else on_ok (get_prop h u ''_def'') (\<lambda>def.
    on_ok (get_prop h def ''typeName'') (\<lambda>tn.
    on_ok (if truthy tn then Inr tn else get_prop h def ''type'') (\<lambda>typeName.
    if typeName = JStr ''ZodNumber'' \<or> typeName = JStr ''number'' then Some (Inr number)
    else if typeName = JStr ''ZodBoolean'' \<or> typeName = JStr ''boolean'' then Some (Inr boolean)
    else if typeName = JStr ''ZodString'' \<or> typeName = JStr ''string'' then Some (Inr string)
    else Some (Inr other)))))) = Some (Inr (node_kind h u))" for u
  proof (cases "truthy u \<and> truthy (read_prop h u ''_def'')")
    case False
    then show ?thesis by (auto simp: get_prop_truthy node_kind_def)
  next
    case True
    define d where "d = read_prop h u ''_def''"
    have ts: "truthy u" and td: "truthy d" using True by (simp_all add: d_def)
    have gs: "get_prop h u ''_def'' = Inr d" using ts by (simp add: get_prop_truthy d_def)
    have gd: "\<And>p. get_prop h d p = Inr (read_prop h d p)" using td by (simp add: get_prop_truthy)
    have tag: "(if truthy (read_prop h d ''typeName'') then Inr (read_prop h d ''typeName'')
                else Inr (read_prop h d ''type'')) = (Inr (type_tag h d) :: js_error + jsval)"
      by (simp add: type_tag_def)
    have k: "node_kind h u =
      (if type_tag h d \<in> {JStr ''ZodNumber'', JStr ''number''} then number
       else if type_tag h d \<in> {JStr ''ZodBoolean'', JStr ''boolean''} then boolean
       else if type_tag h d \<in> {JStr ''ZodString'', JStr ''string''} then string
       else other)"
      using ts td unfolding d_def by (simp add: node_kind_def)
    show ?thesis
      apply (simp only: ts td gs gd on_ok.simps tag k simp_thms if_True if_False)
      apply simp
      done
  qed
  then show ?thesis by (simp add: getPrimitiveKind_def)
qed

lemmas node_eval = wrapper_inner_def read_prop_def type_tag_def inner_slot_def node_kind_def

lemma example_depth: "wrapper_depth example_heap (JRef 0) 2"
proof -
  have "wrapper_depth example_heap (JRef 4) 0"
    by (rule innermost) (simp add: node_eval example_heap_def)
  then have "wrapper_depth example_heap (JRef 2) (Suc 0)"
    by (rule layer [rotated]) (simp add: node_eval example_heap_def)
  then have "wrapper_depth example_heap (JRef 0) (Suc (Suc 0))"
    by (rule layer [rotated]) (simp add: node_eval example_heap_def)
  then show ?thesis by (simp add: numeral_2_eq_2)
qed

text \<open>A wrapper that is its own inner node is never unwrapped.\<close>

lemma unwrapSchema_self_loop:
  assumes "wrapper_inner h s = Some s"
  shows "unwrapSchema h s = None"
proof -
  have "\<not> (h' = h \<and> s' = s)" if "unwrapSchema h' s' = Some r" for h' s' r
    using that
    apply (rule unwrapSchema.raw_induct [where P = "\<lambda>h' s' r. \<not> (h' = h \<and> s' = s)", rotated])
    subgoal premises prems for f h2 s2 r2
      using prems(2) [unfolded unwrap_body_eq [where s = s2 and h = h2 and f = f]] prems(1) assms
      by (auto split: option.splits)
    done
  then show ?thesis by (cases "unwrapSchema h s") auto
qed

text \<open>The transform wrapper at 10 wraps itself: unwrapping it does not return.\<close>

lemma unwrapSchema_cycle: "unwrapSchema example_heap (JRef 10) = None"
  by (rule unwrapSchema_self_loop) (simp add: node_eval example_heap_def)

section \<open>Evaluation and totality lemmas\<close>

text \<open>The loop step with the two falsy cases of \<^verbatim>\<open>!envVarName\<close> taken together.\<close>

lemma build_initial_Cons [simp]:
  "build_initial zv h sh metadata env (key # keys) initial =
    (if \<not> truthy (metadata_at metadata key) then build_initial zv h sh metadata env keys initial
     else if \<not> truthy (shape_at sh key) then build_initial zv h sh metadata env keys initial
     else bind_js (coerceValue zv h (shape_at sh key) (read_env env (the (metadata key)))) (\<lambda>coerced.
       if coerced \<noteq> Undefined
       then build_initial zv h sh metadata env keys (initial(key \<mapsto> coerced))
       else build_initial zv h sh metadata env keys initial))"
  by (simp add: metadata_at_def split: option.splits)

declare build_initial.simps(2) [simp del]

lemmas read_eval = metadata_at_def read_env_def inherited_member_def object_prototype_members_def

lemmas string_eval = trim_def toLowerCase_def to_lower_char_def is_js_space_def char_of_eq_iff

lemmas number_eval = string_to_number_def trim_def is_js_space_def non_decimal_def str_decimal_def
  unsigned_decimal_def is_digit_def digit_of_def exponent_part_def parse_digits_def
  round_range_def scale10_def

lemma coerce_number_safeParse_eq:
  "coerce_number_safeParse zv v =
    (if to_number v = NaN \<or> (zv = Zod4 \<and> to_number v \<in> {PosInfinity, NegInfinity}) then None
     else Some (to_number v))"
  by (simp add: coerce_number_safeParse_def)

lemma trim_blank:
  assumes "\<forall>c\<in>set s. is_js_space c"
  shows "trim s = []"
  using assms by (auto simp: trim_def dest: set_dropWhileD)


lemma getPrimitiveKind_result: "getPrimitiveKind h s = Some r \<Longrightarrow> \<exists>k. r = Inr k"
  by (cases "unwrapSchema h s") (auto simp: getPrimitiveKind_eq dest!: unwrapSchema_result)

lemma getPrimitiveKind_depth: "wrapper_depth h s n \<Longrightarrow> \<exists>k. getPrimitiveKind h s = Some (Inr k)"
  by (auto simp: getPrimitiveKind_eq dest!: unwrapSchema_depth)

lemma coerceValue_string_result:
  "string_or_absent v \<Longrightarrow> coerceValue zv h f v = Some r \<Longrightarrow> \<exists>c. r = Inr c"
  by (cases "getPrimitiveKind h f"; cases v)
    (auto simp: coerceValue_def string_or_absent_def Let_def dest!: getPrimitiveKind_result
          split: option.splits if_splits)

lemma coerceValue_returns:
  "wrapper_depth h f n \<Longrightarrow> \<exists>r. coerceValue zv h f v = Some r"
  by (cases "call_toLowerCase v")
    (auto simp: coerceValue_def Let_def dest!: getPrimitiveKind_depth
          split: option.splits if_splits)

lemma build_initial_returns:
  "\<forall>k\<in>set keys. \<exists>n. wrapper_depth h (shape_at sh k) n \<Longrightarrow>
   \<exists>r. build_initial zv h sh metadata env keys initial = Some r"
proof (induction keys arbitrary: initial)
  case Nil
  then show ?case by simp
next
  case (Cons key keys)
  then obtain n where "wrapper_depth h (shape_at sh key) n" by auto
  then obtain r where r:
    "coerceValue zv h (shape_at sh key) (read_env env (the (metadata key))) = Some r"
    using coerceValue_returns by blast
  show ?case
  proof (cases r)
    case (Inl e)
    with r Cons show ?thesis by auto
  next
    case (Inr c)
    with r Cons show ?thesis by auto
  qed
qed

lemma read_env_own_names:
  assumes "own_names metadata env" and "truthy (metadata_at metadata k)"
  shows "string_or_absent (read_env env (the (metadata k)))"
proof (cases "metadata k")
  case None
  with assms(2) show ?thesis by (simp add: metadata_at_def)
next
  case (Some name)
  with assms(1) have "env name \<noteq> None \<or> name \<notin> set object_prototype_members"
    unfolding own_names_def by blast
  with Some show ?thesis
    by (cases "env name")
       (auto simp: read_env_def inherited_member_def string_or_absent_def)
qed

lemma build_initial_result:
  "own_names metadata env \<Longrightarrow>
   build_initial zv h sh metadata env keys initial = Some r \<Longrightarrow> \<exists>c. r = Inr c"
proof (induction keys arbitrary: initial)
  case Nil
  then show ?case by auto
next
  case (Cons key keys)
  show ?case
  proof (cases "truthy (metadata_at metadata key)")
    case False
    with Cons show ?thesis by auto
  next
    case True
    then have sa: "string_or_absent (read_env env (the (metadata key)))"
      using Cons.prems(1) read_env_own_names by blast
    show ?thesis
    proof (cases "coerceValue zv h (shape_at sh key) (read_env env (the (metadata key)))")
      case None
      with Cons show ?thesis by (auto split: if_splits)
    next
      case (Some x)
      then obtain c where "x = Inr c" using coerceValue_string_result [OF sa] by blast
      with Some Cons show ?thesis by (auto split: if_splits)
    qed
  qed
qed

lemma shape_at_depth:
  assumes "\<forall>f\<in>snd ` set sh. \<exists>n. wrapper_depth h f n"
  shows "\<exists>n. wrapper_depth h (shape_at sh k) n"
proof (cases "map_of sh k")
  case None
  then have "shape_at sh k = Undefined" by (simp add: shape_at_def)
  then show ?thesis by (auto intro!: exI [of _ 0] innermost simp: wrapper_inner_def)
next
  case (Some f)
  then have "f \<in> snd ` set sh" by (force dest: map_of_SomeD)
  with assms Some show ?thesis by (auto simp: shape_at_def)
qed

lemma build_initial_metadata_cong:
  assumes "\<And>k. truthy (metadata_at md k) = truthy (metadata_at md' k)"
    and "\<And>k. truthy (metadata_at md k) \<Longrightarrow> md' k = md k"
  shows "build_initial zv h sh md env ks initial = build_initial zv h sh md' env ks initial"
proof (induction ks arbitrary: initial)
  case Nil
  show ?case by simp
next
  case (Cons k ks)
  show ?case
  proof (cases "truthy (metadata_at md k)")
    case True
    then have "truthy (metadata_at md' k)" "md' k = md k" using assms by auto
    with True show ?thesis by (simp only: build_initial_Cons Cons.IH)
  next
    case False
    then have "\<not> truthy (metadata_at md' k)" using assms by auto
    with False show ?thesis by (simp only: build_initial_Cons Cons.IH if_True simp_thms)
  qed
qed

lemma build_initial_drop_empty_name:
  assumes "metadata key = Some []"
  shows "build_initial zv h sh metadata env ks initial
     = build_initial zv h sh (metadata(key := None)) env ks initial"
proof (rule build_initial_metadata_cong)
  show "truthy (metadata_at metadata k) = truthy (metadata_at (metadata(key := None)) k)" for k
    using assms by (simp add: metadata_at_def)
  show "(metadata(key := None)) k = metadata k" if "truthy (metadata_at metadata k)" for k
    using assms that by (auto simp: metadata_at_def)
qed


lemma scenario_kinds:
  "getPrimitiveKind (scenario_heap zv) (JRef 0) = Some (Inr number)"
  "getPrimitiveKind (scenario_heap zv) (JRef 2) = Some (Inr string)"
  "getPrimitiveKind (scenario_heap zv) (JRef 6) = Some (Inr boolean)"
  by (cases zv; simp add: getPrimitiveKind_eq unwrapSchema_unfold node_eval scenario_heap_def type_entry_def)+

lemma scenario_coerce:
  "coerceValue zv (scenario_heap zv) (JRef 0) (JStr ''3000'') = Some (Inr (JNum (Num 3000)))"
  "coerceValue zv (scenario_heap zv) (JRef 2) (JStr ''example.com'') = Some (Inr (JStr ''example.com''))"
  "coerceValue zv (scenario_heap zv) (JRef 6) (JStr ''true'') = Some (Inr (JBool True))"
proof -
  have "string_to_number ''3000'' = Num 3000" by (simp add: number_eval)
  then show "coerceValue zv (scenario_heap zv) (JRef 0) (JStr ''3000'') = Some (Inr (JNum (Num 3000)))"
    by (simp add: coerceValue_def scenario_kinds coerce_number_safeParse_eq)
  show "coerceValue zv (scenario_heap zv) (JRef 2) (JStr ''example.com'') = Some (Inr (JStr ''example.com''))"
    by (simp add: coerceValue_def scenario_kinds)
  have "trim (toLowerCase ''true'') = ''true''" by (simp add: string_eval)
  then show "coerceValue zv (scenario_heap zv) (JRef 6) (JStr ''true'') = Some (Inr (JBool True))"
    by (simp add: coerceValue_def scenario_kinds)
qed

lemma scenario_initial:
  "build_initial zv (scenario_heap zv) (shape (scenario_schema zv)) scenario_mapping scenario_env
     (map fst (shape (scenario_schema zv))) Map.empty
   = Some (Inr [''port'' \<mapsto> JNum (Num 3000), ''host'' \<mapsto> JStr ''example.com'', ''debug'' \<mapsto> JBool True])"
  by (simp add: scenario_schema_def scenario_mapping_def scenario_env_def read_eval shape_at_def
        scenario_coerce)

lemma scenario_parse:
  "z_object_parse zv scenario_fields
     [''port'' \<mapsto> JNum (Num 3000), ''host'' \<mapsto> JStr ''example.com'', ''debug'' \<mapsto> JBool True]
   = Inr [''port'' \<mapsto> JNum (Num 3000), ''host'' \<mapsto> JStr ''example.com'', ''debug'' \<mapsto> JBool True]"
  by (auto simp: z_object_parse_def scenario_fields_def field_issues_def field_result_def
        field_value_def fun_eq_iff)









lemma example_kinds:
  "getPrimitiveKind example_heap (JRef 0) = Some (Inr number)"
  "getPrimitiveKind example_heap (JRef 8) = Some (Inr boolean)"
  "getPrimitiveKind example_heap (JRef 12) = Some (Inr string)"
  by (simp_all add: getPrimitiveKind_eq unwrapSchema_unfold node_eval example_heap_def)


lemma scenario_initial_no_host:
  "build_initial zv (scenario_heap zv) (shape (scenario_schema zv))
     (scenario_mapping(''host'' := None)) scenario_env
     (map fst (shape (scenario_schema zv))) Map.empty
   = Some (Inr [''port'' \<mapsto> JNum (Num 3000), ''debug'' \<mapsto> JBool True])"
  by (simp add: scenario_schema_def scenario_mapping_def scenario_env_def read_eval shape_at_def
        scenario_coerce)

lemma scenario_parse_no_host:
  "z_object_parse zv scenario_fields [''port'' \<mapsto> JNum (Num 3000), ''debug'' \<mapsto> JBool True]
   = Inr [''port'' \<mapsto> JNum (Num 3000), ''host'' \<mapsto> JStr ''localhost'', ''debug'' \<mapsto> JBool True]"
  by (cases zv)
     (auto simp: z_object_parse_def scenario_fields_def field_issues_def field_result_def
        field_value_def fun_eq_iff)



text \<open>Outside inherited names the build propagates the validator's outcome, whatever the
  validator is.\<close>

lemma createConfig_propagates_own_names:
  assumes "own_names metadata env"
  shows "(\<forall>e. createConfig zv h schema metadata env = Some (Inl e) \<longrightarrow>
      (\<exists>initial. build_initial zv h (shape schema) metadata env (map fst (shape schema)) Map.empty
                   = Some (Inr initial) \<and> parse schema initial = Inl e))
   \<and> ((\<forall>f\<in>snd ` set (shape schema). \<exists>n. wrapper_depth h f n) \<longrightarrow>
      (\<exists>initial. build_initial zv h (shape schema) metadata env (map fst (shape schema)) Map.empty
                   = Some (Inr initial)
               \<and> createConfig zv h schema metadata env = Some (parse schema initial)))"
proof (intro conjI allI impI)
  fix e
  assume e: "createConfig zv h schema metadata env = Some (Inl e)"
  then obtain r where r: "build_initial zv h (shape schema) metadata env (map fst (shape schema)) Map.empty = Some r"
    by (cases "build_initial zv h (shape schema) metadata env (map fst (shape schema)) Map.empty")
       (auto simp: createConfig_def)
  then obtain c where "r = Inr c" using build_initial_result [OF assms] by blast
  with r e show "\<exists>initial. build_initial zv h (shape schema) metadata env (map fst (shape schema)) Map.empty
                   = Some (Inr initial) \<and> parse schema initial = Inl e"
    by (auto simp: createConfig_def)
next
  assume "\<forall>f\<in>snd ` set (shape schema). \<exists>n. wrapper_depth h f n"
  then have "\<forall>k\<in>set (map fst (shape schema)). \<exists>n. wrapper_depth h (shape_at (shape schema) k) n"
    using shape_at_depth by blast
  then obtain r where r: "build_initial zv h (shape schema) metadata env (map fst (shape schema)) Map.empty = Some r"
    using build_initial_returns by blast
  then obtain c where "r = Inr c" using build_initial_result [OF assms] by blast
  with r show "\<exists>initial. build_initial zv h (shape schema) metadata env (map fst (shape schema)) Map.empty
                   = Some (Inr initial)
               \<and> createConfig zv h schema metadata env = Some (parse schema initial)"
    by (auto simp: createConfig_def)
qed

lemma scenario_coerce_80:
  "coerceValue zv (scenario_heap zv) (JRef 0) (JStr ''80'') = Some (Inr (JNum (Num 80)))"
proof -
  have "string_to_number ''80'' = Num 80" by (simp add: number_eval)
  then show ?thesis by (simp add: coerceValue_def scenario_kinds coerce_number_safeParse_eq)
qed

lemma scenario_coerce_inherited:
  "coerceValue zv (scenario_heap zv) (JRef 6) (JBuiltin ''constructor'') = Some (Inl TypeError)"
  by (simp add: coerceValue_def scenario_kinds)

lemma scenario_initial_inherited:
  "build_initial zv (scenario_heap zv) (shape (scenario_schema zv))
     [''port'' \<mapsto> ''APP_PORT'', ''debug'' \<mapsto> ''constructor''] [''APP_PORT'' \<mapsto> ''80'']
     (map fst (shape (scenario_schema zv))) Map.empty
   = Some (Inl TypeError)"
  by (simp add: scenario_schema_def read_eval shape_at_def scenario_coerce_80 scenario_coerce_inherited)

lemma scenario_parse_80:
  "z_object_parse zv scenario_fields [''port'' \<mapsto> JNum (Num 80)]
   = Inr [''port'' \<mapsto> JNum (Num 80), ''host'' \<mapsto> JStr ''localhost'', ''debug'' \<mapsto> JBool False]"
  by (cases zv)
     (auto simp: z_object_parse_def scenario_fields_def field_issues_def field_result_def
        field_value_def fun_eq_iff)


section \<open>The unwrap operation\<close>

text \<open>
  Claim C5. The unwrap operation never throws: on no store and no input (null, undefined,
  primitives, malformed and even cyclic descriptors included) does \<^verbatim>\<open>unwrapSchema\<close> raise an
  error. It returns the node it was given when that node is \<^verbatim>\<open>undefined\<close> or \<^verbatim>\<open>null\<close>, has no
  \<^verbatim>\<open>_def\<close>, carries an unrecognised type tag, or is a wrapper whose expected inner slot is
  missing; and it returns some node for every descriptor of finite wrapper depth.
\<close>

theorem unwrapSchema_never_throws:
  "(\<forall>e. unwrapSchema h s \<noteq> Some (Inl e))
   \<and> unwrapSchema h Undefined = Some (Inr Undefined)
   \<and> unwrapSchema h Null = Some (Inr Null)
   \<and> (\<not> truthy (read_prop h s ''_def'') \<longrightarrow> unwrapSchema h s = Some (Inr s))
   \<and> (inner_slot (type_tag h (read_prop h s ''_def'')) = None \<longrightarrow> unwrapSchema h s = Some (Inr s))
   \<and> (inner_slot (type_tag h (read_prop h s ''_def'')) = Some slot
        \<and> \<not> truthy (read_prop h (read_prop h s ''_def'') slot) \<longrightarrow> unwrapSchema h s = Some (Inr s))
   \<and> (wrapper_depth h s n \<longrightarrow> (\<exists>v. unwrapSchema h s = Some (Inr v)))"
proof (intro conjI allI impI)
  fix e show "unwrapSchema h s \<noteq> Some (Inl e)"
    using unwrapSchema_result [of h s "Inl e"] by auto
next
  show "unwrapSchema h Undefined = Some (Inr Undefined)"
    by (rule unwrapSchema_stop) (simp add: wrapper_inner_def)
next
  show "unwrapSchema h Null = Some (Inr Null)"
    by (rule unwrapSchema_stop) (simp add: wrapper_inner_def)
next
  assume "\<not> truthy (read_prop h s ''_def'')"
  then show "unwrapSchema h s = Some (Inr s)"
    by (intro unwrapSchema_stop) (simp add: wrapper_inner_def)
next
  assume "inner_slot (type_tag h (read_prop h s ''_def'')) = None"
  then show "unwrapSchema h s = Some (Inr s)"
    by (intro unwrapSchema_stop) (simp add: wrapper_inner_def)
next
  assume "inner_slot (type_tag h (read_prop h s ''_def'')) = Some slot
        \<and> \<not> truthy (read_prop h (read_prop h s ''_def'') slot)"
  then show "unwrapSchema h s = Some (Inr s)"
    by (intro unwrapSchema_stop) (simp add: wrapper_inner_def)
next
  assume "wrapper_depth h s n"
  then show "\<exists>v. unwrapSchema h s = Some (Inr v)"
    using unwrapSchema_depth by blast
qed

theorem unwrapSchema_never_throws_witness:
  "unwrapSchema example_heap (JStr ''port'') = Some (Inr (JStr ''port''))
   \<and> unwrapSchema example_heap (JRef 4) = Some (Inr (JRef 4))
   \<and> unwrapSchema example_heap (JRef 6) = Some (Inr (JRef 6))
   \<and> wrapper_depth example_heap (JRef 0) 2
   \<and> (\<exists>v. unwrapSchema example_heap (JRef 0) = Some (Inr v))"
proof (intro conjI)
  have "\<not> truthy (read_prop example_heap (JStr ''port'') ''_def'')"
    by (simp add: read_prop_def)
  with unwrapSchema_never_throws [of example_heap "JStr ''port''"]
  show "unwrapSchema example_heap (JStr ''port'') = Some (Inr (JStr ''port''))" by blast
next
  have "inner_slot (type_tag example_heap (read_prop example_heap (JRef 4) ''_def'')) = None"
    by (simp add: node_eval example_heap_def)
  with unwrapSchema_never_throws [of example_heap "JRef 4"]
  show "unwrapSchema example_heap (JRef 4) = Some (Inr (JRef 4))" by blast
next
  have "inner_slot (type_tag example_heap (read_prop example_heap (JRef 6) ''_def'')) = Some ''innerType''
        \<and> \<not> truthy (read_prop example_heap (read_prop example_heap (JRef 6) ''_def'') ''innerType'')"
    by (simp add: node_eval example_heap_def)
  with unwrapSchema_never_throws [of example_heap "JRef 6" "''innerType''"]
  show "unwrapSchema example_heap (JRef 6) = Some (Inr (JRef 6))" by blast
next
  show d: "wrapper_depth example_heap (JRef 0) 2" by (rule example_depth)
  with unwrapSchema_never_throws [of example_heap "JRef 0" _ 2]
  show "\<exists>v. unwrapSchema example_heap (JRef 0) = Some (Inr v)" by blast
qed

text \<open>
  Claim C6. For a descriptor whose wrapper layers are acyclic (it has a finite wrapper depth
  \<open>n\<close>, each layer having one less than the layer around it), \<^verbatim>\<open>unwrapSchema\<close> terminates
  with a node, and unwrapping is idempotent: unwrapping the result gives the result again,
  so \<open>unwrap (unwrap s) = unwrap s\<close>.
\<close>

theorem unwrapSchema_terminates_idempotent:
  "wrapper_depth h s n \<Longrightarrow>
     (\<exists>v. unwrapSchema h s = Some (Inr v) \<and> unwrapSchema h v = Some (Inr v))
     \<and> bind_js (unwrapSchema h s) (unwrapSchema h) = unwrapSchema h s"
proof -
  assume "wrapper_depth h s n"
  then obtain v where v: "unwrapSchema h s = Some (Inr v)" "wrapper_inner h v = None"
    using unwrapSchema_depth by blast
  then have "unwrapSchema h v = Some (Inr v)" by (simp add: unwrapSchema_stop)
  with v show ?thesis by simp
qed

theorem unwrapSchema_terminates_idempotent_witness:
  "wrapper_depth example_heap (JRef 0) 2
   \<and> unwrapSchema example_heap (JRef 0) = Some (Inr (JRef 4))
   \<and> unwrapSchema example_heap (JRef 4) = Some (Inr (JRef 4))
   \<and> bind_js (unwrapSchema example_heap (JRef 0)) (unwrapSchema example_heap)
       = unwrapSchema example_heap (JRef 0)"
proof -
  have u: "unwrapSchema example_heap (JRef 0) = Some (Inr (JRef 4))"
    by (simp add: unwrapSchema_unfold node_eval example_heap_def)
  from unwrapSchema_terminates_idempotent [OF example_depth] u example_depth
  show ?thesis by auto
qed

section \<open>Coercion\<close>

text \<open>
  Claim C2. For every field classified as boolean-kind and every present raw string: after
  lowercasing and trimming, \<^verbatim>\<open>"true"\<close>, \<^verbatim>\<open>"1"\<close> and \<^verbatim>\<open>"yes"\<close> coerce to the boolean true;
  \<^verbatim>\<open>"false"\<close>, \<^verbatim>\<open>"0"\<close>, \<^verbatim>\<open>"no"\<close> and the empty string coerce to the boolean false; every other
  string is returned unchanged as a string.
\<close>

theorem coerceValue_boolean_kind:
  "getPrimitiveKind h schema = Some (Inr boolean) \<Longrightarrow>
   coerceValue zv h schema (JStr s) = Some (Inr (
     if trim (toLowerCase s) \<in> {''true'', ''1'', ''yes''} then JBool True
     else if trim (toLowerCase s) \<in> {''false'', ''0'', ''no'', []} then JBool False
     else JStr s))"
  by (simp add: coerceValue_def)

theorem coerceValue_boolean_kind_witness:
  "getPrimitiveKind example_heap (JRef 8) = Some (Inr boolean)
   \<and> coerceValue Zod4 example_heap (JRef 8) (JStr '' YES '') = Some (Inr (JBool True))
   \<and> coerceValue Zod4 example_heap (JRef 8) (JStr ''0'') = Some (Inr (JBool False))
   \<and> coerceValue Zod4 example_heap (JRef 8) (JStr []) = Some (Inr (JBool False))
   \<and> coerceValue Zod4 example_heap (JRef 8) (JStr ''maybe'') = Some (Inr (JStr ''maybe''))"
proof -
  note k = example_kinds(2)
  have t: "trim (toLowerCase '' YES '') = ''yes''" "trim (toLowerCase ''0'') = ''0''"
    "trim (toLowerCase []) = []" "trim (toLowerCase ''maybe'') = ''maybe''"
    by (simp_all add: string_eval)
  show ?thesis
    using coerceValue_boolean_kind [OF k, of Zod4 "'' YES ''"]
      coerceValue_boolean_kind [OF k, of Zod4 "''0''"]
      coerceValue_boolean_kind [OF k, of Zod4 "[]"]
      coerceValue_boolean_kind [OF k, of Zod4 "''maybe''"] k
    by (simp only: t) simp
qed

text \<open>
  Claim C3. For every field classified as number-kind and every present raw string: if the
  numeric parse of the string succeeds, the coercion produces the parsed number (\<^verbatim>\<open>"3000"\<close>
  gives 3000 and \<^verbatim>\<open>"3.14"\<close> gives 3.14); if the parse fails, the coercion produces the raw
  string unchanged. The parse fails exactly when \<^verbatim>\<open>Number\<close> of the string is NaN, or an
  infinity under zod 4.
\<close>

theorem coerceValue_number_kind:
  "getPrimitiveKind h schema = Some (Inr number) \<Longrightarrow>
   coerceValue zv h schema (JStr s) = Some (Inr (
     if string_to_number s = NaN \<or> (zv = Zod4 \<and> string_to_number s \<in> {PosInfinity, NegInfinity})
     then JStr s else JNum (string_to_number s)))
   \<and> coerceValue zv h schema (JStr ''3000'') = Some (Inr (JNum (Num 3000)))
   \<and> coerceValue zv h schema (JStr ''3.14'') = Some (Inr (JNum (Num (314 / 100))))"
proof -
  assume k: "getPrimitiveKind h schema = Some (Inr number)"
  have a: "string_to_number ''3000'' = Num 3000" by (simp add: number_eval)
  have b: "string_to_number ''3.14'' = Num (314 / 100)" by (simp add: number_eval)
  have c: "coerceValue zv h schema (JStr s) = Some (Inr (
     if string_to_number s = NaN \<or> (zv = Zod4 \<and> string_to_number s \<in> {PosInfinity, NegInfinity})
     then JStr s else JNum (string_to_number s)))" for s
    using k by (simp add: coerceValue_def coerce_number_safeParse_eq)
  show ?thesis
    using c [of s] c [of "''3000''"] c [of "''3.14''"] by (simp only: a b) simp
qed

theorem coerceValue_number_kind_witness:
  "getPrimitiveKind example_heap (JRef 0) = Some (Inr number)
   \<and> coerceValue Zod3 example_heap (JRef 0) (JStr ''3000'') = Some (Inr (JNum (Num 3000)))
   \<and> coerceValue Zod3 example_heap (JRef 0) (JStr ''3.14'') = Some (Inr (JNum (Num (314 / 100))))
   \<and> coerceValue Zod3 example_heap (JRef 0) (JStr ''abc'') = Some (Inr (JStr ''abc''))"
proof -
  note k = example_kinds(1)
  have n: "string_to_number ''abc'' = NaN" by (simp add: number_eval)
  show ?thesis
    using coerceValue_number_kind [OF k, of Zod3 "''abc''"] k
    by (simp only: n) simp
qed

text \<open>
  Claim C9. For every field classified as number-kind, a present raw string that is empty
  or consists only of white space coerces to the number 0; it is not passed through as a
  string.
\<close>

theorem coerceValue_number_blank:
  "getPrimitiveKind h schema = Some (Inr number) \<Longrightarrow> \<forall>c\<in>set s. is_js_space c \<Longrightarrow>
   coerceValue zv h schema (JStr s) = Some (Inr (JNum (Num 0)))"
  by (simp add: coerceValue_def coerce_number_safeParse_eq string_to_number_def trim_blank)

theorem coerceValue_number_blank_witness:
  "getPrimitiveKind example_heap (JRef 0) = Some (Inr number)
   \<and> coerceValue Zod3 example_heap (JRef 0) (JStr ''  '') = Some (Inr (JNum (Num 0)))
   \<and> coerceValue Zod3 example_heap (JRef 0) (JStr []) = Some (Inr (JNum (Num 0)))"
proof -
  note k = example_kinds(1)
  have b: "\<forall>c\<in>set ''  ''. is_js_space c" by (simp add: is_js_space_def)
  have e: "\<forall>c\<in>set []. is_js_space c" by simp
  show ?thesis
    using coerceValue_number_blank [OF k b, of Zod3] coerceValue_number_blank [OF k e, of Zod3] k
    by simp
qed




section \<open>The build operation\<close>

text \<open>
  Claim C7. The build operation propagates the validator's outcome verbatim, and a
  validation failure is the only error that reaches the caller. The code breaks the second
  half where the mapping names a member of \<^verbatim>\<open>Object.prototype\<close> for a boolean field: with the
  schema of the example, the mapping \<^verbatim>\<open>{port: "APP_PORT", debug: "constructor"}\<close> and the
  environment \<^verbatim>\<open>{APP_PORT: "80"}\<close>, the read \<^verbatim>\<open>env["constructor"]\<close> gives the inherited function,
  the boolean branch of \<^verbatim>\<open>coerceValue\<close> calls \<^verbatim>\<open>toLowerCase\<close> on it, and \<^verbatim>\<open>createConfig\<close> throws a
  TypeError before the validator is called, although the validator accepts the candidate
  built up to there. (Where no such name is read, the outcome is exactly the validator's:
  \<open>createConfig_propagates_own_names\<close>.)
\<close>

theorem createConfig_inherited_name_throws:
  "createConfig Zod3 (scenario_heap Zod3) (scenario_schema Zod3)
      [''port'' \<mapsto> ''APP_PORT'', ''debug'' \<mapsto> ''constructor''] [''APP_PORT'' \<mapsto> ''80'']
    = Some (Inl TypeError)
   \<and> createConfig Zod4 (scenario_heap Zod4) (scenario_schema Zod4)
      [''port'' \<mapsto> ''APP_PORT'', ''debug'' \<mapsto> ''constructor''] [''APP_PORT'' \<mapsto> ''80'']
    = Some (Inl TypeError)
   \<and> parse (scenario_schema Zod3) [''port'' \<mapsto> JNum (Num 80)]
    = Inr [''port'' \<mapsto> JNum (Num 80), ''host'' \<mapsto> JStr ''localhost'', ''debug'' \<mapsto> JBool False]"
  using scenario_parse_80 [of Zod3]
  by (simp add: createConfig_def scenario_initial_inherited) (simp add: scenario_schema_def)

text \<open>
  Claim C10. A field whose mapping entry is the empty string is skipped exactly as if it
  had no mapping entry: its loop iteration leaves the candidate object as it is whatever
  the environment holds, as the iteration of an unmapped field does, and the whole build
  gives the same outcome as with the entry removed.
\<close>

theorem createConfig_empty_name:
  "metadata key = Some [] \<Longrightarrow>
   build_initial zv h sh metadata env (key # keys) initial
     = build_initial zv h sh metadata env keys initial
   \<and> build_initial zv h sh (metadata(key := None)) env (key # keys) initial
     = build_initial zv h sh (metadata(key := None)) env keys initial
   \<and> createConfig zv h schema metadata env = createConfig zv h schema (metadata(key := None)) env"
  using build_initial_drop_empty_name [of metadata key zv h "shape schema" env]
  by (simp add: metadata_at_def createConfig_def)

theorem createConfig_empty_name_witness:
  "(scenario_mapping(''host'' \<mapsto> [])) ''host'' = Some []
   \<and> createConfig Zod3 (scenario_heap Zod3) (scenario_schema Zod3)
        (scenario_mapping(''host'' \<mapsto> [])) scenario_env
      = createConfig Zod3 (scenario_heap Zod3) (scenario_schema Zod3)
        (scenario_mapping(''host'' := None)) scenario_env
   \<and> createConfig Zod3 (scenario_heap Zod3) (scenario_schema Zod3)
        (scenario_mapping(''host'' \<mapsto> [])) scenario_env
      = Some (Inr [''port'' \<mapsto> JNum (Num 3000), ''host'' \<mapsto> JStr ''localhost'',
                   ''debug'' \<mapsto> JBool True])"
proof -
  have m: "(scenario_mapping(''host'' \<mapsto> [])) ''host'' = Some []" by simp
  have d: "(scenario_mapping(''host'' \<mapsto> []))(''host'' := None) = scenario_mapping(''host'' := None)"
    by simp
  have e: "createConfig Zod3 (scenario_heap Zod3) (scenario_schema Zod3)
        (scenario_mapping(''host'' \<mapsto> [])) scenario_env
      = createConfig Zod3 (scenario_heap Zod3) (scenario_schema Zod3)
        (scenario_mapping(''host'' := None)) scenario_env"
    using createConfig_empty_name [where metadata = "scenario_mapping(''host'' \<mapsto> [])"
        and key = "''host''" and zv = Zod3 and h = "scenario_heap Zod3" and env = scenario_env
        and schema = "scenario_schema Zod3", OF m]
    by (simp only: d)
  have r: "createConfig Zod3 (scenario_heap Zod3) (scenario_schema Zod3)
        (scenario_mapping(''host'' := None)) scenario_env
      = Some (Inr [''port'' \<mapsto> JNum (Num 3000), ''host'' \<mapsto> JStr ''localhost'',
                   ''debug'' \<mapsto> JBool True])"
    using scenario_parse_no_host [of Zod3]
    by (simp add: createConfig_def scenario_initial_no_host) (simp add: scenario_schema_def)
  from m e r show ?thesis by (simp only: simp_thms)
qed



text \<open>
  Claim C1. For the schema \<^verbatim>\<open>{port: positive integer, host: string with default
  "localhost", debug: boolean with default false}\<close>, the mapping \<^verbatim>\<open>{port: "APP_PORT", host:
  "APP_HOST", debug: "DEBUG"}\<close> and the environment \<^verbatim>\<open>{APP_PORT: "3000", APP_HOST:
  "example.com", DEBUG: "true"}\<close>, \<^verbatim>\<open>createConfig\<close> returns exactly \<^verbatim>\<open>{port: 3000, host:
  "example.com", debug: true}\<close>, under either version of the validator.
\<close>

theorem createConfig_scenario_A:
  "createConfig zv (scenario_heap zv) (scenario_schema zv) scenario_mapping scenario_env
   = Some (Inr [''port'' \<mapsto> JNum (Num 3000), ''host'' \<mapsto> JStr ''example.com'', ''debug'' \<mapsto> JBool True])"
  using scenario_parse [of zv]
  by (simp add: createConfig_def scenario_initial) (simp add: scenario_schema_def)

theorem createConfig_scenario_A_witness:
  "createConfig Zod3 (scenario_heap Zod3) (scenario_schema Zod3) scenario_mapping scenario_env
     = Some (Inr [''port'' \<mapsto> JNum (Num 3000), ''host'' \<mapsto> JStr ''example.com'',
                  ''debug'' \<mapsto> JBool True])
   \<and> createConfig Zod4 (scenario_heap Zod4) (scenario_schema Zod4) scenario_mapping scenario_env
     = Some (Inr [''port'' \<mapsto> JNum (Num 3000), ''host'' \<mapsto> JStr ''example.com'',
                  ''debug'' \<mapsto> JBool True])"
  using createConfig_scenario_A [of Zod3] createConfig_scenario_A [of Zod4]
  by (simp only: simp_thms)

end
